theory Spec2Isabelle
  imports Main
begin

section \<open>Python values\<close>

text \<open>
  The controller of \<^verbatim>\<open>main.py\<close> handles the values that the router library hands back
  and the dictionaries it builds from them. \<open>PDict\<close> is a Python \<^verbatim>\<open>dict\<close> with string
  keys, kept as an association list in insertion order.
\<close>

datatype pyval =
    PNone
  | PStr string
  | PInt int
  | PBool bool
  | PDict "(string \<times> pyval) list"

type_synonym pydict = "(string \<times> pyval) list"

text \<open>Truth value of an object, as \<^verbatim>\<open>if enable:\<close> tests it.\<close>

fun truthy :: "pyval \<Rightarrow> bool" where
  "truthy PNone = False"
| "truthy (PStr s) = (s \<noteq> [])"
| "truthy (PInt i) = (i \<noteq> 0)"
| "truthy (PBool b) = b"
| "truthy (PDict d) = (d \<noteq> [])"

text \<open>\<^verbatim>\<open>d.get(k)\<close>: the value stored under \<open>k\<close>, or \<^verbatim>\<open>None\<close> when the key is missing.\<close>

definition dict_get :: "pydict \<Rightarrow> string \<Rightarrow> pyval" where
  "dict_get d k = (case map_of d k of None \<Rightarrow> PNone | Some v \<Rightarrow> v)"

text \<open>
  Exceptions. \<open>FritzConnectionException msg\<close> stands for an instance of
  \<^verbatim>\<open>fritzconnection.core.exceptions.FritzConnectionException\<close> or of one of its subclasses
  (the library's action errors among them) with \<^verbatim>\<open>str(ex) = msg\<close>; \<open>AttributeError a\<close>
  is raised by reading or deleting the missing attribute \<open>a\<close>; \<open>OtherException\<close> is
  anything else the library may raise.
\<close>

datatype exn =
    FritzConnectionException string
  | AttributeError string
  | AssertionError
  | OtherException string

section \<open>The router connection and the world\<close>

text \<open>
  The methods talk to the router and sleep. Both effects are written into an explicit
  world: \<open>device\<close> is the state of the router, of a type \<open>'r\<close> left open, and \<open>events\<close>
  is the log of what the controller has done so far, one entry per action call and per
  \<^verbatim>\<open>sleep\<close>. Calls of \<^verbatim>\<open>logging\<close> only write to the process output and are left out.
\<close>

datatype event =
    CallAction string string pydict
  | Sleep nat

record 'r world =
  device :: 'r
  events :: "event list"

text \<open>
  \<^verbatim>\<open>FritzConnection.call_action(service, action, arguments=...)\<close> belongs to the library
  and is a parameter here: from the router's state, the service name, the action name
  and the arguments it gives the returned dictionary or the raised exception, and the
  router's next state. A connection object carries it together with the two properties
  the controller reads.
\<close>

type_synonym 'r call_action =
  "'r \<Rightarrow> string \<Rightarrow> string \<Rightarrow> pydict \<Rightarrow> (exn + pydict) \<times> 'r"

record 'r connection =
  system_version :: string
  modelname :: string
  call_action :: "'r call_action"

text \<open>
  An instance of \<^verbatim>\<open>FritzBoxGuestWiFiControl\<close> has the single attribute \<^verbatim>\<open>fritzbox\<close>;
  \<open>None\<close> is the instance after \<^verbatim>\<open>del self.fritzbox\<close>.
\<close>

record 'r control =
  fritzbox :: "'r connection option"

definition FRITZBOX_GUESTWIFI_ENABLED :: string where
  "FRITZBOX_GUESTWIFI_ENABLED = ''Up''"

definition init :: "'r connection \<Rightarrow> 'r control" where
  "init conn = \<lparr>fritzbox = Some conn\<rparr>"

section \<open>The controller's methods\<close>

text \<open>
  The \<^verbatim>\<open>try\<close>/\<^verbatim>\<open>except\<close> of \<^verbatim>\<open>__guestwifi_action\<close>: a \<^verbatim>\<open>FritzConnectionException\<close> becomes the
  dictionary \<^verbatim>\<open>{"error": str(ex)}\<close>, every other exception passes through.
\<close>

fun catch_fritz :: "exn + pydict \<Rightarrow> exn + pydict" where
  "catch_fritz (Inr res) = Inr res"
| "catch_fritz (Inl (FritzConnectionException msg)) = Inr [(''error'', PStr msg)]"
| "catch_fritz (Inl ex) = Inl ex"

text \<open>
  \<^verbatim>\<open>__guestwifi_action(action_name, arguments=None)\<close>. Reading \<^verbatim>\<open>self.fritzbox\<close> on an
  instance without that attribute raises \<^verbatim>\<open>AttributeError\<close>, which the \<^verbatim>\<open>except\<close> clause
  does not catch.
\<close>

definition priv_guestwifi_action ::
  "'r control \<Rightarrow> string \<Rightarrow> pydict option \<Rightarrow> 'r world \<Rightarrow> (exn + pydict) \<times> 'r world" where
  "priv_guestwifi_action self action_name arguments w =
     (let args = (case arguments of None \<Rightarrow> [] | Some a \<Rightarrow> a) in
      case fritzbox self of
        None \<Rightarrow> (Inl (AttributeError ''fritzbox''), w)
      | Some conn \<Rightarrow>
          (case call_action conn (device w) ''WLANConfiguration3'' action_name args of
             (resp, d) \<Rightarrow>
               (catch_fritz resp,
                \<lparr>device = d,
                 events = events w @ [CallAction ''WLANConfiguration3'' action_name args]\<rparr>)))"

text \<open>\<^verbatim>\<open>__get_guestwifi_status\<close>: the \<^verbatim>\<open>NewStatus\<close> entry of what \<^verbatim>\<open>GetInfo\<close> gave.\<close>

definition priv_get_guestwifi_status ::
  "'r control \<Rightarrow> 'r world \<Rightarrow> (exn + pyval) \<times> 'r world" where
  "priv_get_guestwifi_status self w =
     (case priv_guestwifi_action self ''GetInfo'' None w of
        (Inl ex, w') \<Rightarrow> (Inl ex, w')
      | (Inr res, w') \<Rightarrow> (Inr (dict_get res ''NewStatus''), w'))"

definition get_guestwifi_status ::
  "'r control \<Rightarrow> 'r world \<Rightarrow> (exn + pyval) \<times> 'r world" where
  "get_guestwifi_status self w =
     (case priv_get_guestwifi_status self w of
        (Inl ex, w') \<Rightarrow> (Inl ex, w')
      | (Inr status, w') \<Rightarrow> (Inr (PDict [(''enabled'', status)]), w'))"

text \<open>\<^verbatim>\<open>sleep(n)\<close> blocks for \<open>n\<close> seconds; the world records that it happened.\<close>

definition sleep :: "nat \<Rightarrow> 'r world \<Rightarrow> 'r world" where
  "sleep n w = w\<lparr>events := events w @ [Sleep n]\<rparr>"

definition set_guestwifi_status ::
  "'r control \<Rightarrow> pyval \<Rightarrow> 'r world \<Rightarrow> (exn + pyval) \<times> 'r world" where
  "set_guestwifi_status self enable w =
     (case priv_get_guestwifi_status self w of
        (Inl ex, w1) \<Rightarrow> (Inl ex, w1)
      | (Inr status, w1) \<Rightarrow>
          if (if truthy enable
              then status = PStr FRITZBOX_GUESTWIFI_ENABLED
              else status \<noteq> PStr FRITZBOX_GUESTWIFI_ENABLED)
          then (Inr (PDict [(''enabled'', status)]), w1)
          else
            (case priv_guestwifi_action self ''SetEnable'' (Some [(''NewEnable'', enable)]) w1 of
               (Inl ex, w2) \<Rightarrow> (Inl ex, w2)
             | (Inr _, w2) \<Rightarrow> get_guestwifi_status self (sleep 5 w2)))"

text \<open>
  \<^verbatim>\<open>get_info\<close>: the dictionary display is evaluated from left to right, so the two
  properties of the connection are read first, then the three actions run in the order
  \<^verbatim>\<open>GetInfo\<close>, \<^verbatim>\<open>GetSSID\<close>, \<^verbatim>\<open>GetStatistics\<close>.
\<close>

definition get_info ::
  "'r control \<Rightarrow> 'r world \<Rightarrow> (exn + pyval) \<times> 'r world" where
  "get_info self w =
     (case fritzbox self of
        None \<Rightarrow> (Inl (AttributeError ''fritzbox''), w)
      | Some conn \<Rightarrow>
          (case priv_get_guestwifi_status self w of
             (Inl ex, w1) \<Rightarrow> (Inl ex, w1)
           | (Inr enabled, w1) \<Rightarrow>
               (case priv_guestwifi_action self ''GetSSID'' None w1 of
                  (Inl ex, w2) \<Rightarrow> (Inl ex, w2)
                | (Inr ssid_res, w2) \<Rightarrow>
                    (case priv_guestwifi_action self ''GetStatistics'' None w2 of
                       (Inl ex, w3) \<Rightarrow> (Inl ex, w3)
                     | (Inr stats, w3) \<Rightarrow>
                         (Inr (PDict
                            [(''fritzbox'', PDict
                               [(''version'', PStr (system_version conn)),
                                (''model'', PStr (modelname conn)),
                                (''guestwifi'', PDict
                                   [(''enabled'', enabled),
                                    (''ssid'', dict_get ssid_res ''NewSSID''),
                                    (''stats'', PDict stats)])])]),
                          w3)))))"

text \<open>\<^verbatim>\<open>close\<close>: \<^verbatim>\<open>del self.fritzbox\<close>, an \<^verbatim>\<open>AttributeError\<close> when the attribute is gone.\<close>

definition close :: "'r control \<Rightarrow> exn + 'r control" where
  "close self =
     (case fritzbox self of
        None \<Rightarrow> Inl (AttributeError ''fritzbox'')
      | Some conn \<Rightarrow> Inr (self\<lparr>fritzbox := None\<rparr>))"

section \<open>Module start-up\<close>

text \<open>
  The statements that \<^verbatim>\<open>main.py\<close> runs when it is loaded, up to the creation of the web
  application. \<^verbatim>\<open>load_dotenv\<close> and the constructor \<^verbatim>\<open>FritzConnection\<close> belong to
  libraries and are parameters; \<open>environ\<close> is the process environment. The test of
  \<^verbatim>\<open>sys.version_info\<close> is left out: the annotated signatures of the module are
  accepted by Python 3 only. The list returned beside the outcome records the
  connection attempt and the creation of the application.

  The parameter \<open>debug\<close> is the interpreter's constant \<^verbatim>\<open>__debug__\<close>. It is fixed when
  the interpreter starts: true by default, false when it is started with \<^verbatim>\<open>-O\<close> or with
  \<^verbatim>\<open>PYTHONOPTIMIZE\<close> in effect. Python compiles an \<^verbatim>\<open>assert\<close> statement to nothing when
  \<^verbatim>\<open>__debug__\<close> is false; otherwise the statement raises \<^verbatim>\<open>AssertionError\<close> on a false
  value, which ends the load.
\<close>

type_synonym environ = "string \<Rightarrow> string option"

text \<open>\<^verbatim>\<open>os.getenv(k)\<close>: the value of the variable, or \<^verbatim>\<open>None\<close>.\<close>

definition getenv :: "environ \<Rightarrow> string \<Rightarrow> pyval" where
  "getenv env k = (case env k of None \<Rightarrow> PNone | Some v \<Rightarrow> PStr v)"

text \<open>\<^verbatim>\<open>assert v\<close> raises exactly when assertions are compiled in and \<open>v\<close> is false.\<close>

definition assert_raises :: "bool \<Rightarrow> pyval \<Rightarrow> bool" where
  "assert_raises debug v = (debug \<and> \<not> truthy v)"

datatype startup_event =
    OpenConnection pyval pyval pyval
  | AppCreated

definition module_init ::
  "bool \<Rightarrow> (environ \<Rightarrow> environ) \<Rightarrow> (pyval \<Rightarrow> pyval \<Rightarrow> pyval \<Rightarrow> exn + 'r connection)
     \<Rightarrow> environ \<Rightarrow> (exn + unit) \<times> startup_event list" where
  "module_init debug load_dotenv FritzConnection environ =
     (let env = load_dotenv environ in
      if assert_raises debug (getenv env ''FRITZBOX_ADDRESS'') then (Inl AssertionError, [])
      else if assert_raises debug (getenv env ''FRITZBOX_USER'') then (Inl AssertionError, [])
      else if assert_raises debug (getenv env ''FRITZBOX_PASS'') then (Inl AssertionError, [])
      else
        (let opened = [OpenConnection (getenv env ''FRITZBOX_ADDRESS'')
                         (getenv env ''FRITZBOX_USER'') (getenv env ''FRITZBOX_PASS'')] in
         case FritzConnection (getenv env ''FRITZBOX_ADDRESS'')
                (getenv env ''FRITZBOX_USER'') (getenv env ''FRITZBOX_PASS'') of
           Inl ex \<Rightarrow> (Inl ex, opened)
         | Inr fritz_connection \<Rightarrow>
             if assert_raises debug (PStr (system_version fritz_connection))
             then (Inl AssertionError, opened)
             else (Inr (), opened @ [AppCreated])))"

section \<open>Vocabulary of the properties\<close>

text \<open>
  The \<^verbatim>\<open>error\<close> entry of a value: \<open>Some e\<close> for a dictionary that has one, \<open>None\<close> for
  a dictionary without it and for every value that is not a dictionary.
\<close>

definition error_of :: "pyval \<Rightarrow> pyval option" where
  "error_of v = (case v of PDict d \<Rightarrow> map_of d ''error'' | _ \<Rightarrow> None)"

text \<open>The values an action hands back for its out-arguments are not dictionaries.\<close>

fun scalar :: "pyval \<Rightarrow> bool" where
  "scalar (PDict d) = False"
| "scalar v = True"

subsection \<open>A simulated router\<close>

text \<open>
  A small router used as concrete input. Its state is whether the guest WiFi is on.
  Every action named in \<open>failing\<close> raises a library exception with the text \<^verbatim>\<open>boom\<close>;
  otherwise \<^verbatim>\<open>GetInfo\<close>, \<^verbatim>\<open>GetSSID\<close> and \<^verbatim>\<open>GetStatistics\<close> answer without changing the
  state and \<^verbatim>\<open>SetEnable\<close> switches it.
\<close>

definition sim_router :: "string list \<Rightarrow> bool call_action" where
  "sim_router failing up service action_name args =
     (if action_name \<in> set failing then (Inl (FritzConnectionException ''boom''), up)
      else if action_name = ''GetInfo''
        then (Inr [(''NewEnable'', PBool up),
                   (''NewStatus'', PStr (if up then ''Up'' else ''Disabled'')),
                   (''NewSSID'', PStr ''guest'')], up)
      else if action_name = ''GetSSID'' then (Inr [(''NewSSID'', PStr ''guest'')], up)
      else if action_name = ''GetStatistics''
        then (Inr [(''NewTotalPacketsSent'', PInt 10),
                   (''NewTotalPacketsReceived'', PInt 20)], up)
      else if action_name = ''SetEnable''
        then (Inr [], truthy (dict_get args ''NewEnable''))
      else (Inl (FritzConnectionException ''unknown action''), up))"

definition sim_conn :: "string list \<Rightarrow> bool connection" where
  "sim_conn failing =
     \<lparr>system_version = ''7.29'', modelname = ''FRITZ!Box 7590'',
      call_action = sim_router failing\<rparr>"

definition sim_box :: "string list \<Rightarrow> bool control" where
  "sim_box failing = init (sim_conn failing)"

definition world0 :: "bool \<Rightarrow> bool world" where
  "world0 up = \<lparr>device = up, events = []\<rparr>"

definition sim_environ :: "string \<Rightarrow> environ" where
  "sim_environ pass =
     [''FRITZBOX_ADDRESS'' \<mapsto> ''192.168.178.1'', ''FRITZBOX_USER'' \<mapsto> ''admin'',
      ''FRITZBOX_PASS'' \<mapsto> pass]"

section \<open>What one action call does\<close>

lemma priv_guestwifi_action_events:
  assumes "fritzbox self = Some conn"
  shows "events (snd (priv_guestwifi_action self a arguments w)) =
           events w @ [CallAction ''WLANConfiguration3'' a (case arguments of None \<Rightarrow> [] | Some x \<Rightarrow> x)]"
  using assms by (simp add: priv_guestwifi_action_def Let_def split: prod.splits)

lemma priv_get_guestwifi_status_events:
  assumes "fritzbox self = Some conn"
  shows "events (snd (priv_get_guestwifi_status self w)) =
           events w @ [CallAction ''WLANConfiguration3'' ''GetInfo'' []]"
  using priv_guestwifi_action_events [OF assms, of "''GetInfo''" None w]
  by (cases "priv_guestwifi_action self ''GetInfo'' None w")
    (auto simp: priv_get_guestwifi_status_def split: sum.splits)

lemma get_guestwifi_status_events:
  assumes "fritzbox self = Some conn"
  shows "events (snd (get_guestwifi_status self w)) =
           events w @ [CallAction ''WLANConfiguration3'' ''GetInfo'' []]"
  using priv_get_guestwifi_status_events [OF assms, of w]
  by (cases "priv_get_guestwifi_status self w")
    (auto simp: get_guestwifi_status_def split: sum.splits)

lemma priv_get_guestwifi_status_read:
  assumes "fritzbox self = Some conn"
    and "call_action conn (device w) ''WLANConfiguration3'' ''GetInfo'' [] = (resp, d)"
    and "catch_fritz resp = Inr res"
  shows "priv_get_guestwifi_status self w =
           (Inr (dict_get res ''NewStatus''),
            \<lparr>device = d, events = events w @ [CallAction ''WLANConfiguration3'' ''GetInfo'' []]\<rparr>)"
  using assms by (simp add: priv_get_guestwifi_status_def priv_guestwifi_action_def)

lemma priv_guestwifi_action_caught:
  assumes "fritzbox self = Some conn"
    and "call_action conn (device w) ''WLANConfiguration3'' a args = (resp, d)"
    and "catch_fritz resp = Inr res"
  shows "priv_guestwifi_action self a (Some args) w =
           (Inr res, \<lparr>device = d, events = events w @ [CallAction ''WLANConfiguration3'' a args]\<rparr>)"
    and "args = [] \<Longrightarrow> priv_guestwifi_action self a None w =
           (Inr res, \<lparr>device = d, events = events w @ [CallAction ''WLANConfiguration3'' a []]\<rparr>)"
  using assms by (simp_all add: priv_guestwifi_action_def)

lemma get_guestwifi_status_read:
  assumes "fritzbox self = Some conn"
    and "call_action conn (device w) ''WLANConfiguration3'' ''GetInfo'' [] = (resp, d)"
    and "catch_fritz resp = Inr res"
  shows "get_guestwifi_status self w =
           (Inr (PDict [(''enabled'', dict_get res ''NewStatus'')]),
            \<lparr>device = d, events = events w @ [CallAction ''WLANConfiguration3'' ''GetInfo'' []]\<rparr>)"
  using priv_get_guestwifi_status_read [OF assms] by (simp add: get_guestwifi_status_def)

lemma set_guestwifi_status_returns_early:
  assumes "priv_get_guestwifi_status self w = (Inr status, w1)"
    and "truthy enable \<longleftrightarrow> status = PStr ''Up''"
  shows "set_guestwifi_status self enable w = (Inr (PDict [(''enabled'', status)]), w1)"
  using assms by (simp add: set_guestwifi_status_def FRITZBOX_GUESTWIFI_ENABLED_def)

lemma set_guestwifi_status_writes:
  assumes "priv_get_guestwifi_status self w = (Inr status, w1)"
    and "truthy enable \<longleftrightarrow> status \<noteq> PStr ''Up''"
  shows "set_guestwifi_status self enable w =
           (case priv_guestwifi_action self ''SetEnable'' (Some [(''NewEnable'', enable)]) w1 of
              (Inl ex, w2) \<Rightarrow> (Inl ex, w2)
            | (Inr _, w2) \<Rightarrow> get_guestwifi_status self (sleep 5 w2))"
  using assms by (simp add: set_guestwifi_status_def FRITZBOX_GUESTWIFI_ENABLED_def)


lemma scalar_error_of: "scalar v \<Longrightarrow> error_of v = None"
  by (cases v) (simp_all add: error_of_def)

section \<open>Setting the status\<close>

text \<open>
  C1 (idempotency short-circuit). The controller is open and the \<^verbatim>\<open>GetInfo\<close> read gives
  the dictionary \<open>res\<close> (the router's answer, or the error dictionary after a caught
  library exception). If \<open>enable\<close> is true and the status read is \<^verbatim>\<open>"Up"\<close>, or \<open>enable\<close> is
  false and the status read is anything else, \<open>set_guestwifi_status\<close> returns
  \<^verbatim>\<open>{"enabled": status}\<close> and the only event it adds is that one \<^verbatim>\<open>GetInfo\<close> call: no
  \<^verbatim>\<open>SetEnable\<close>, no sleep.
\<close>

theorem set_guestwifi_status_short_circuit:
  assumes "fritzbox self = Some conn"
    and "call_action conn (device w) ''WLANConfiguration3'' ''GetInfo'' [] = (resp, d)"
    and "catch_fritz resp = Inr res"
    and "truthy enable \<longleftrightarrow> dict_get res ''NewStatus'' = PStr ''Up''"
  shows "set_guestwifi_status self enable w =
           (Inr (PDict [(''enabled'', dict_get res ''NewStatus'')]),
            \<lparr>device = d,
             events = events w @ [CallAction ''WLANConfiguration3'' ''GetInfo'' []]\<rparr>)"
  using assms(4) priv_get_guestwifi_status_read [OF assms(1-3)]
  by (simp add: set_guestwifi_status_def FRITZBOX_GUESTWIFI_ENABLED_def)

theorem set_guestwifi_status_short_circuit_witness:
  "set_guestwifi_status (sim_box []) (PBool True) (world0 True) =
     (Inr (PDict [(''enabled'', PStr ''Up'')]),
      \<lparr>device = True, events = [CallAction ''WLANConfiguration3'' ''GetInfo'' []]\<rparr>)
   \<and> set_guestwifi_status (sim_box []) (PBool False) (world0 False) =
     (Inr (PDict [(''enabled'', PStr ''Disabled'')]),
      \<lparr>device = False, events = [CallAction ''WLANConfiguration3'' ''GetInfo'' []]\<rparr>)"
proof -
  let ?info = "\<lambda>up. [(''NewEnable'', PBool up),
                    (''NewStatus'', PStr (if up then ''Up'' else ''Disabled'')),
                    (''NewSSID'', PStr ''guest'')]"
  have op: "fritzbox (sim_box []) = Some (sim_conn [])"
    by (simp add: sim_box_def init_def)
  have rd: "call_action (sim_conn []) (device (world0 up)) ''WLANConfiguration3'' ''GetInfo'' []
              = (Inr (?info up), up)" for up
    by (simp add: sim_conn_def sim_router_def world0_def)
  have ok: "catch_fritz (Inr (?info up)) = Inr (?info up)" for up
    by simp
  have on: "truthy (PBool True) \<longleftrightarrow> dict_get (?info True) ''NewStatus'' = PStr ''Up''"
    by (simp add: dict_get_def)
  have off: "truthy (PBool False) \<longleftrightarrow> dict_get (?info False) ''NewStatus'' = PStr ''Up''"
    by (simp add: dict_get_def)
  show ?thesis
    using set_guestwifi_status_short_circuit [OF op rd ok on]
      set_guestwifi_status_short_circuit [OF op rd ok off]
    by (simp add: dict_get_def world0_def)
qed

text \<open>
  C2 (state-change path). If \<open>enable\<close> is true and the status read is not \<^verbatim>\<open>"Up"\<close>, or
  \<open>enable\<close> is false and the status read is \<^verbatim>\<open>"Up"\<close>, and the \<^verbatim>\<open>SetEnable\<close> call and the
  second \<^verbatim>\<open>GetInfo\<close> call each return or fail with a library exception, then the events
  added are exactly: the first read, one \<^verbatim>\<open>SetEnable\<close> with \<^verbatim>\<open>{"NewEnable": enable}\<close>, a
  sleep of 5 seconds, one more \<^verbatim>\<open>GetInfo\<close>; the result is \<^verbatim>\<open>{"enabled": status}\<close> for the
  status of that last read.
\<close>

theorem set_guestwifi_status_change:
  assumes "fritzbox self = Some conn"
    and "call_action conn (device w) ''WLANConfiguration3'' ''GetInfo'' [] = (resp1, d1)"
    and "catch_fritz resp1 = Inr res1"
    and "truthy enable \<longleftrightarrow> dict_get res1 ''NewStatus'' \<noteq> PStr ''Up''"
    and "call_action conn d1 ''WLANConfiguration3'' ''SetEnable'' [(''NewEnable'', enable)]
           = (resp2, d2)"
    and "catch_fritz resp2 = Inr res2"
    and "call_action conn d2 ''WLANConfiguration3'' ''GetInfo'' [] = (resp3, d3)"
    and "catch_fritz resp3 = Inr res3"
  shows "set_guestwifi_status self enable w =
           (Inr (PDict [(''enabled'', dict_get res3 ''NewStatus'')]),
            \<lparr>device = d3,
             events = events w @
               [CallAction ''WLANConfiguration3'' ''GetInfo'' [],
                CallAction ''WLANConfiguration3'' ''SetEnable'' [(''NewEnable'', enable)],
                Sleep 5,
                CallAction ''WLANConfiguration3'' ''GetInfo'' []]\<rparr>)"
proof -
  let ?w1 = "\<lparr>device = d1,
              events = events w @ [CallAction ''WLANConfiguration3'' ''GetInfo'' []]\<rparr>"
  let ?w2 = "\<lparr>device = d2,
              events = events ?w1 @
                [CallAction ''WLANConfiguration3'' ''SetEnable'' [(''NewEnable'', enable)]]\<rparr>"
  have s1: "priv_get_guestwifi_status self w = (Inr (dict_get res1 ''NewStatus''), ?w1)"
    using assms(1-3) by (rule priv_get_guestwifi_status_read)
  have s2: "priv_guestwifi_action self ''SetEnable'' (Some [(''NewEnable'', enable)]) ?w1
              = (Inr res2, ?w2)"
    using priv_guestwifi_action_caught(1) [OF assms(1) _ assms(6), of ?w1] assms(5) by simp
  have s3: "priv_get_guestwifi_status self (sleep 5 ?w2) =
              (Inr (dict_get res3 ''NewStatus''),
               \<lparr>device = d3,
                events = events (sleep 5 ?w2) @ [CallAction ''WLANConfiguration3'' ''GetInfo'' []]\<rparr>)"
    using priv_get_guestwifi_status_read [OF assms(1) _ assms(8), of "sleep 5 ?w2"] assms(7)
    by (simp add: sleep_def)
  show ?thesis
    using assms(4) s1 s2 s3
    by (simp add: set_guestwifi_status_def get_guestwifi_status_def
        FRITZBOX_GUESTWIFI_ENABLED_def sleep_def)
qed

theorem set_guestwifi_status_change_witness:
  "set_guestwifi_status (sim_box []) (PBool True) (world0 False) =
     (Inr (PDict [(''enabled'', PStr ''Up'')]),
      \<lparr>device = True,
       events = [CallAction ''WLANConfiguration3'' ''GetInfo'' [],
                 CallAction ''WLANConfiguration3'' ''SetEnable'' [(''NewEnable'', PBool True)],
                 Sleep 5,
                 CallAction ''WLANConfiguration3'' ''GetInfo'' []]\<rparr>)"
proof -
  let ?info = "\<lambda>up. [(''NewEnable'', PBool up),
                    (''NewStatus'', PStr (if up then ''Up'' else ''Disabled'')),
                    (''NewSSID'', PStr ''guest'')]"
  have op: "fritzbox (sim_box []) = Some (sim_conn [])"
    by (simp add: sim_box_def init_def)
  have r1: "call_action (sim_conn []) (device (world0 False)) ''WLANConfiguration3'' ''GetInfo'' []
              = (Inr (?info False), False)"
    by (simp add: sim_conn_def sim_router_def world0_def)
  have c1: "catch_fritz (Inr (?info False)) = Inr (?info False)"
    by simp
  have ns: "truthy (PBool True) \<longleftrightarrow> dict_get (?info False) ''NewStatus'' \<noteq> PStr ''Up''"
    by (simp add: dict_get_def)
  have r2: "call_action (sim_conn []) False ''WLANConfiguration3'' ''SetEnable''
              [(''NewEnable'', PBool True)] = (Inr [], True)"
    by (simp add: sim_conn_def sim_router_def dict_get_def)
  have c2: "catch_fritz (Inr []) = Inr []"
    by simp
  have r3: "call_action (sim_conn []) True ''WLANConfiguration3'' ''GetInfo'' []
              = (Inr (?info True), True)"
    by (simp add: sim_conn_def sim_router_def)
  have c3: "catch_fritz (Inr (?info True)) = Inr (?info True)"
    by simp
  show ?thesis
    using set_guestwifi_status_change [OF op r1 c1 ns r2 c2 r3 c3]
    by (simp add: dict_get_def world0_def)
qed



text \<open>
  C9 (the read before the write fails). The first \<^verbatim>\<open>GetInfo\<close> call raises a library
  exception, so the status read is \<^verbatim>\<open>None\<close>. Disabling then returns \<^verbatim>\<open>{"enabled": None}\<close>
  with that read as its only event. Enabling goes on: one \<^verbatim>\<open>SetEnable\<close> with
  \<^verbatim>\<open>{"NewEnable": True}\<close>, the sleep of 5 seconds and the second read, whose status it
  returns (the \<^verbatim>\<open>SetEnable\<close> call and the second read each returning or failing with a
  library exception).
\<close>

theorem set_guestwifi_status_unknown_status:
  assumes "fritzbox self = Some conn"
    and "call_action conn (device w) ''WLANConfiguration3'' ''GetInfo'' []
           = (Inl (FritzConnectionException msg), d1)"
    and "call_action conn d1 ''WLANConfiguration3'' ''SetEnable'' [(''NewEnable'', PBool True)]
           = (resp2, d2)"
    and "catch_fritz resp2 = Inr res2"
    and "call_action conn d2 ''WLANConfiguration3'' ''GetInfo'' [] = (resp3, d3)"
    and "catch_fritz resp3 = Inr res3"
  shows "set_guestwifi_status self (PBool False) w =
           (Inr (PDict [(''enabled'', PNone)]),
            \<lparr>device = d1,
             events = events w @ [CallAction ''WLANConfiguration3'' ''GetInfo'' []]\<rparr>)
         \<and> set_guestwifi_status self (PBool True) w =
           (Inr (PDict [(''enabled'', dict_get res3 ''NewStatus'')]),
            \<lparr>device = d3,
             events = events w @
               [CallAction ''WLANConfiguration3'' ''GetInfo'' [],
                CallAction ''WLANConfiguration3'' ''SetEnable'' [(''NewEnable'', PBool True)],
                Sleep 5,
                CallAction ''WLANConfiguration3'' ''GetInfo'' []]\<rparr>)"
proof -
  let ?w1 = "\<lparr>device = d1,
              events = events w @ [CallAction ''WLANConfiguration3'' ''GetInfo'' []]\<rparr>"
  let ?w2 = "\<lparr>device = d2,
              events = events ?w1 @
                [CallAction ''WLANConfiguration3'' ''SetEnable'' [(''NewEnable'', PBool True)]]\<rparr>"
  have rd: "priv_get_guestwifi_status self w = (Inr PNone, ?w1)"
    using priv_get_guestwifi_status_read [OF assms(1,2), of "[(''error'', PStr msg)]"]
    by (simp add: dict_get_def)
  have off: "set_guestwifi_status self (PBool False) w = (Inr (PDict [(''enabled'', PNone)]), ?w1)"
    using set_guestwifi_status_returns_early [OF rd, of "PBool False"] by simp
  have wr: "priv_guestwifi_action self ''SetEnable'' (Some [(''NewEnable'', PBool True)]) ?w1
              = (Inr res2, ?w2)"
    using priv_guestwifi_action_caught(1) [OF assms(1) _ assms(4), of ?w1] assms(3) by simp
  have rr: "get_guestwifi_status self (sleep 5 ?w2) =
              (Inr (PDict [(''enabled'', dict_get res3 ''NewStatus'')]),
               \<lparr>device = d3,
                events = events (sleep 5 ?w2) @ [CallAction ''WLANConfiguration3'' ''GetInfo'' []]\<rparr>)"
    using get_guestwifi_status_read [OF assms(1) _ assms(6), of "sleep 5 ?w2"] assms(5)
    by (simp add: sleep_def)
  have on: "set_guestwifi_status self (PBool True) w = get_guestwifi_status self (sleep 5 ?w2)"
    using set_guestwifi_status_writes [OF rd, of "PBool True"] wr by simp
  show ?thesis
    using off on rr by (simp add: sleep_def)
qed

theorem set_guestwifi_status_unknown_status_witness:
  "set_guestwifi_status (sim_box [''GetInfo'']) (PBool False) (world0 True) =
     (Inr (PDict [(''enabled'', PNone)]),
      \<lparr>device = True, events = [CallAction ''WLANConfiguration3'' ''GetInfo'' []]\<rparr>)
   \<and> set_guestwifi_status (sim_box [''GetInfo'']) (PBool True) (world0 True) =
     (Inr (PDict [(''enabled'', PNone)]),
      \<lparr>device = True,
       events =
         [CallAction ''WLANConfiguration3'' ''GetInfo'' [],
          CallAction ''WLANConfiguration3'' ''SetEnable'' [(''NewEnable'', PBool True)],
          Sleep 5,
          CallAction ''WLANConfiguration3'' ''GetInfo'' []]\<rparr>)"
proof -
  have op: "fritzbox (sim_box [''GetInfo'']) = Some (sim_conn [''GetInfo''])"
    by (simp add: sim_box_def init_def)
  have r1: "call_action (sim_conn [''GetInfo'']) (device (world0 True))
              ''WLANConfiguration3'' ''GetInfo'' [] = (Inl (FritzConnectionException ''boom''), True)"
    by (simp add: sim_conn_def sim_router_def world0_def)
  have r2: "call_action (sim_conn [''GetInfo'']) True ''WLANConfiguration3'' ''SetEnable''
              [(''NewEnable'', PBool True)] = (Inr [], True)"
    by (simp add: sim_conn_def sim_router_def dict_get_def)
  have c2: "catch_fritz (Inr []) = Inr []"
    by simp
  have r3: "call_action (sim_conn [''GetInfo'']) True ''WLANConfiguration3'' ''GetInfo'' []
              = (Inl (FritzConnectionException ''boom''), True)"
    by (simp add: sim_conn_def sim_router_def)
  have c3: "catch_fritz (Inl (FritzConnectionException ''boom'')) = Inr [(''error'', PStr ''boom'')]"
    by simp
  show ?thesis
    using set_guestwifi_status_unknown_status [OF op r1 r2 c2 r3 c3]
    by (simp add: dict_get_def world0_def)
qed


section \<open>Reading the status\<close>

text \<open>
  C4 as stated does not hold. On the simulated router whose \<^verbatim>\<open>GetInfo\<close> raises a library
  exception with the text \<^verbatim>\<open>boom\<close>, \<open>get_guestwifi_status\<close> returns
  \<^verbatim>\<open>{"enabled": None}\<close> and not \<^verbatim>\<open>{"enabled": {"error": "boom"}}\<close>: the error dictionary
  has no \<^verbatim>\<open>NewStatus\<close> entry, so \<^verbatim>\<open>.get("NewStatus")\<close> gives \<^verbatim>\<open>None\<close>.
\<close>

theorem get_guestwifi_status_error_shape_counterexample:
  "call_action (sim_conn [''GetInfo'']) (device (world0 True)) ''WLANConfiguration3'' ''GetInfo'' []
     = (Inl (FritzConnectionException ''boom''), True)
   \<and> fst (get_guestwifi_status (sim_box [''GetInfo'']) (world0 True))
       = Inr (PDict [(''enabled'', PNone)])
   \<and> fst (get_guestwifi_status (sim_box [''GetInfo'']) (world0 True))
       \<noteq> Inr (PDict [(''enabled'', PDict [(''error'', PStr ''boom'')])])"
  by (simp add: get_guestwifi_status_def priv_get_guestwifi_status_def
      priv_guestwifi_action_def sim_box_def sim_conn_def sim_router_def init_def world0_def
      dict_get_def)

text \<open>
  C4, amended. Whenever the \<^verbatim>\<open>GetInfo\<close> call raises a \<^verbatim>\<open>FritzConnectionException\<close>,
  \<open>get_guestwifi_status\<close> returns normally, so no exception leaves the controller, and
  its result is \<^verbatim>\<open>{"enabled": None}\<close>; the failure description is not part of it.
\<close>

theorem get_guestwifi_status_read_failure:
  assumes "fritzbox self = Some conn"
    and "call_action conn (device w) ''WLANConfiguration3'' ''GetInfo'' []
           = (Inl (FritzConnectionException msg), d)"
  shows "get_guestwifi_status self w =
           (Inr (PDict [(''enabled'', PNone)]),
            \<lparr>device = d, events = events w @ [CallAction ''WLANConfiguration3'' ''GetInfo'' []]\<rparr>)"
  using priv_get_guestwifi_status_read [OF assms, of "[(''error'', PStr msg)]"]
  by (simp add: get_guestwifi_status_def dict_get_def)

theorem get_guestwifi_status_read_failure_witness:
  "get_guestwifi_status (sim_box [''GetInfo'']) (world0 True) =
     (Inr (PDict [(''enabled'', PNone)]),
      \<lparr>device = True, events = [CallAction ''WLANConfiguration3'' ''GetInfo'' []]\<rparr>)"
proof -
  have op: "fritzbox (sim_box [''GetInfo'']) = Some (sim_conn [''GetInfo''])"
    by (simp add: sim_box_def init_def)
  have rd: "call_action (sim_conn [''GetInfo'']) (device (world0 True))
              ''WLANConfiguration3'' ''GetInfo'' [] = (Inl (FritzConnectionException ''boom''), True)"
    by (simp add: sim_conn_def sim_router_def world0_def)
  show ?thesis
    using get_guestwifi_status_read_failure [OF op rd] by (simp add: world0_def)
qed

text \<open>
  C7 (reading changes nothing). On an open controller \<open>get_guestwifi_status\<close> adds
  exactly one event, the \<^verbatim>\<open>GetInfo\<close> call: no \<^verbatim>\<open>SetEnable\<close>, no sleep. If that call
  left the router's state as it was, calling \<open>get_guestwifi_status\<close> again directly
  afterwards returns the same value.
\<close>

theorem get_guestwifi_status_read_only:
  assumes "fritzbox self = Some conn"
  shows "events (snd (get_guestwifi_status self w)) =
           events w @ [CallAction ''WLANConfiguration3'' ''GetInfo'' []]
         \<and> (device (snd (get_guestwifi_status self w)) = device w \<longrightarrow>
              fst (get_guestwifi_status self (snd (get_guestwifi_status self w)))
                = fst (get_guestwifi_status self w))"
proof
  show "events (snd (get_guestwifi_status self w)) =
          events w @ [CallAction ''WLANConfiguration3'' ''GetInfo'' []]"
    using assms by (rule get_guestwifi_status_events)
next
  have dev: "fst (get_guestwifi_status self w2) = fst (get_guestwifi_status self w)"
    if "device w2 = device w" for w2
    using assms that
    by (simp add: get_guestwifi_status_def priv_get_guestwifi_status_def
        priv_guestwifi_action_def split: prod.splits sum.splits)
  show "device (snd (get_guestwifi_status self w)) = device w \<longrightarrow>
          fst (get_guestwifi_status self (snd (get_guestwifi_status self w)))
            = fst (get_guestwifi_status self w)"
    using dev by blast
qed

theorem get_guestwifi_status_read_only_witness:
  "events (snd (get_guestwifi_status (sim_box []) (world0 True))) =
     [CallAction ''WLANConfiguration3'' ''GetInfo'' []]
   \<and> device (snd (get_guestwifi_status (sim_box []) (world0 True))) = device (world0 True)
   \<and> fst (get_guestwifi_status (sim_box [])
            (snd (get_guestwifi_status (sim_box []) (world0 True))))
       = Inr (PDict [(''enabled'', PStr ''Up'')])
   \<and> fst (get_guestwifi_status (sim_box []) (world0 True))
       = Inr (PDict [(''enabled'', PStr ''Up'')])"
proof -
  have op: "fritzbox (sim_box []) = Some (sim_conn [])"
    by (simp add: sim_box_def init_def)
  have one: "get_guestwifi_status (sim_box []) (world0 True) =
      (Inr (PDict [(''enabled'', PStr ''Up'')]),
       \<lparr>device = True, events = [CallAction ''WLANConfiguration3'' ''GetInfo'' []]\<rparr>)"
    by (simp add: get_guestwifi_status_def priv_get_guestwifi_status_def
        priv_guestwifi_action_def sim_box_def sim_conn_def sim_router_def init_def world0_def
        dict_get_def)
  show ?thesis
    using get_guestwifi_status_read_only [OF op, of "world0 True"] one
    by (simp add: world0_def)
qed

section \<open>The aggregate\<close>

lemma get_info_caught:
  assumes "fritzbox self = Some conn"
    and "call_action conn (device w) ''WLANConfiguration3'' ''GetInfo'' [] = (resp1, d1)"
    and "catch_fritz resp1 = Inr res1"
    and "call_action conn d1 ''WLANConfiguration3'' ''GetSSID'' [] = (resp2, d2)"
    and "catch_fritz resp2 = Inr res2"
    and "call_action conn d2 ''WLANConfiguration3'' ''GetStatistics'' [] = (resp3, d3)"
    and "catch_fritz resp3 = Inr res3"
  shows "get_info self w =
           (Inr (PDict
              [(''fritzbox'', PDict
                 [(''version'', PStr (system_version conn)),
                  (''model'', PStr (modelname conn)),
                  (''guestwifi'', PDict
                     [(''enabled'', dict_get res1 ''NewStatus''),
                      (''ssid'', dict_get res2 ''NewSSID''),
                      (''stats'', PDict res3)])])]),
            \<lparr>device = d3,
             events = events w @
               [CallAction ''WLANConfiguration3'' ''GetInfo'' [],
                CallAction ''WLANConfiguration3'' ''GetSSID'' [],
                CallAction ''WLANConfiguration3'' ''GetStatistics'' []]\<rparr>)"
proof -
  let ?w1 = "\<lparr>device = d1,
              events = events w @ [CallAction ''WLANConfiguration3'' ''GetInfo'' []]\<rparr>"
  let ?w2 = "\<lparr>device = d2,
              events = events ?w1 @ [CallAction ''WLANConfiguration3'' ''GetSSID'' []]\<rparr>"
  let ?w3 = "\<lparr>device = d3,
              events = events ?w2 @ [CallAction ''WLANConfiguration3'' ''GetStatistics'' []]\<rparr>"
  have s1: "priv_get_guestwifi_status self w = (Inr (dict_get res1 ''NewStatus''), ?w1)"
    using assms(1-3) by (rule priv_get_guestwifi_status_read)
  have s2: "priv_guestwifi_action self ''GetSSID'' None ?w1 = (Inr res2, ?w2)"
    using priv_guestwifi_action_caught(2) [OF assms(1) _ assms(5), of ?w1 "''GetSSID''" "[]" d2]
      assms(4) by simp
  have s3: "priv_guestwifi_action self ''GetStatistics'' None ?w2 = (Inr res3, ?w3)"
    using priv_guestwifi_action_caught(2)
      [OF assms(1) _ assms(7), of ?w2 "''GetStatistics''" "[]" d3] assms(6) by simp
  show ?thesis
    using assms(1) s1 s2 s3 by (simp add: get_info_def)
qed

text \<open>
  C3 as stated does not hold. On the simulated router whose \<^verbatim>\<open>GetInfo\<close> raises a library
  exception with the text \<^verbatim>\<open>boom\<close> while the two other actions answer, \<open>get_info\<close>
  returns the complete structure, but its \<^verbatim>\<open>enabled\<close> field is \<^verbatim>\<open>None\<close>, which carries
  no error entry and no failure description.
\<close>

theorem get_info_error_marker_counterexample:
  "call_action (sim_conn [''GetInfo'']) (device (world0 False)) ''WLANConfiguration3'' ''GetInfo'' []
     = (Inl (FritzConnectionException ''boom''), False)
   \<and> fst (get_info (sim_box [''GetInfo'']) (world0 False)) =
       Inr (PDict
         [(''fritzbox'', PDict
            [(''version'', PStr ''7.29''),
             (''model'', PStr ''FRITZ!Box 7590''),
             (''guestwifi'', PDict
                [(''enabled'', PNone),
                 (''ssid'', PStr ''guest''),
                 (''stats'', PDict [(''NewTotalPacketsSent'', PInt 10),
                                    (''NewTotalPacketsReceived'', PInt 20)])])])])
   \<and> error_of PNone = None"
  by (simp add: get_info_def priv_get_guestwifi_status_def priv_guestwifi_action_def
      sim_box_def sim_conn_def sim_router_def init_def world0_def dict_get_def error_of_def)

text \<open>
  C3, amended. If each of the three action calls returns or fails with a library
  exception, \<open>get_info\<close> returns the complete structure with the fields \<^verbatim>\<open>version\<close>,
  \<^verbatim>\<open>model\<close>, \<^verbatim>\<open>enabled\<close>, \<^verbatim>\<open>ssid\<close> and \<^verbatim>\<open>stats\<close>, whichever of the calls failed. A
  failed \<^verbatim>\<open>GetStatistics\<close> puts \<^verbatim>\<open>{"error": <message>}\<close> into \<^verbatim>\<open>stats\<close>; a failed
  \<^verbatim>\<open>GetInfo\<close> leaves \<^verbatim>\<open>enabled\<close> as \<^verbatim>\<open>None\<close> and a failed \<^verbatim>\<open>GetSSID\<close> leaves
  \<^verbatim>\<open>ssid\<close> as \<^verbatim>\<open>None\<close>.
\<close>

theorem get_info_partial_results:
  assumes "fritzbox self = Some conn"
    and "call_action conn (device w) ''WLANConfiguration3'' ''GetInfo'' [] = (resp1, d1)"
    and "catch_fritz resp1 = Inr res1"
    and "call_action conn d1 ''WLANConfiguration3'' ''GetSSID'' [] = (resp2, d2)"
    and "catch_fritz resp2 = Inr res2"
    and "call_action conn d2 ''WLANConfiguration3'' ''GetStatistics'' [] = (resp3, d3)"
    and "catch_fritz resp3 = Inr res3"
  shows "(\<exists>enabled ssid stats.
            fst (get_info self w) =
              Inr (PDict
                [(''fritzbox'', PDict
                   [(''version'', PStr (system_version conn)),
                    (''model'', PStr (modelname conn)),
                    (''guestwifi'', PDict
                       [(''enabled'', enabled), (''ssid'', ssid), (''stats'', stats)])])])
            \<and> (resp1 = Inl (FritzConnectionException msg1) \<longrightarrow> enabled = PNone)
            \<and> (resp2 = Inl (FritzConnectionException msg2) \<longrightarrow> ssid = PNone)
            \<and> (resp3 = Inl (FritzConnectionException msg3) \<longrightarrow>
                 stats = PDict [(''error'', PStr msg3)]))"
proof -
  have e1: "dict_get res1 ''NewStatus'' = PNone" if "resp1 = Inl (FritzConnectionException msg1)"
    using assms(3) that by (auto simp: dict_get_def)
  have e2: "dict_get res2 ''NewSSID'' = PNone" if "resp2 = Inl (FritzConnectionException msg2)"
    using assms(5) that by (auto simp: dict_get_def)
  have e3: "PDict res3 = PDict [(''error'', PStr msg3)]"
    if "resp3 = Inl (FritzConnectionException msg3)"
    using assms(7) that by auto
  show ?thesis
    using get_info_caught [OF assms] e1 e2 e3 by auto
qed

theorem get_info_partial_results_witness:
  "fst (get_info (sim_box [''GetInfo'', ''GetSSID'', ''GetStatistics'']) (world0 True)) =
     Inr (PDict
       [(''fritzbox'', PDict
          [(''version'', PStr ''7.29''),
           (''model'', PStr ''FRITZ!Box 7590''),
           (''guestwifi'', PDict
              [(''enabled'', PNone), (''ssid'', PNone),
               (''stats'', PDict [(''error'', PStr ''boom'')])])])])"
proof -
  let ?all = "[''GetInfo'', ''GetSSID'', ''GetStatistics'']"
  let ?boom = "Inl (FritzConnectionException ''boom'') :: exn + pydict"
  have op: "fritzbox (sim_box ?all) = Some (sim_conn ?all)"
    by (simp add: sim_box_def init_def)
  have r1: "call_action (sim_conn ?all) (device (world0 True)) ''WLANConfiguration3'' ''GetInfo'' []
              = (?boom, True)"
    by (simp add: sim_conn_def sim_router_def world0_def)
  have r2: "call_action (sim_conn ?all) True ''WLANConfiguration3'' ''GetSSID'' [] = (?boom, True)"
    by (simp add: sim_conn_def sim_router_def)
  have r3: "call_action (sim_conn ?all) True ''WLANConfiguration3'' ''GetStatistics'' []
              = (?boom, True)"
    by (simp add: sim_conn_def sim_router_def)
  have c: "catch_fritz ?boom = Inr [(''error'', PStr ''boom'')]"
    by simp
  show ?thesis
    using get_info_partial_results [OF op r1 c r2 c r3 c, of "''boom''" "''boom''" "''boom''"]
    by (auto simp: sim_conn_def)
qed

text \<open>
  C6 (only \<^verbatim>\<open>GetStatistics\<close> fails). \<^verbatim>\<open>GetInfo\<close> and \<^verbatim>\<open>GetSSID\<close> answer, their
  \<^verbatim>\<open>NewStatus\<close> and \<^verbatim>\<open>NewSSID\<close> values being no dictionaries, and \<^verbatim>\<open>GetStatistics\<close>
  raises a library exception with the text \<open>msg\<close>. Then \<open>get_info\<close> returns the
  complete structure after the three calls; \<^verbatim>\<open>stats\<close> is \<^verbatim>\<open>{"error": msg}\<close>, and none
  of \<^verbatim>\<open>version\<close>, \<^verbatim>\<open>model\<close>, \<^verbatim>\<open>enabled\<close>, \<^verbatim>\<open>ssid\<close> has an error entry.
\<close>

theorem get_info_statistics_failure:
  assumes "fritzbox self = Some conn"
    and "call_action conn (device w) ''WLANConfiguration3'' ''GetInfo'' [] = (Inr res1, d1)"
    and "call_action conn d1 ''WLANConfiguration3'' ''GetSSID'' [] = (Inr res2, d2)"
    and "call_action conn d2 ''WLANConfiguration3'' ''GetStatistics'' []
           = (Inl (FritzConnectionException msg), d3)"
    and "scalar (dict_get res1 ''NewStatus'')"
    and "scalar (dict_get res2 ''NewSSID'')"
  shows "get_info self w =
           (Inr (PDict
              [(''fritzbox'', PDict
                 [(''version'', PStr (system_version conn)),
                  (''model'', PStr (modelname conn)),
                  (''guestwifi'', PDict
                     [(''enabled'', dict_get res1 ''NewStatus''),
                      (''ssid'', dict_get res2 ''NewSSID''),
                      (''stats'', PDict [(''error'', PStr msg)])])])]),
            \<lparr>device = d3,
             events = events w @
               [CallAction ''WLANConfiguration3'' ''GetInfo'' [],
                CallAction ''WLANConfiguration3'' ''GetSSID'' [],
                CallAction ''WLANConfiguration3'' ''GetStatistics'' []]\<rparr>)
         \<and> error_of (PDict [(''error'', PStr msg)]) = Some (PStr msg)
         \<and> error_of (dict_get res1 ''NewStatus'') = None
         \<and> error_of (dict_get res2 ''NewSSID'') = None
         \<and> error_of (PStr (system_version conn)) = None
         \<and> error_of (PStr (modelname conn)) = None"
proof -
  have "get_info self w =
           (Inr (PDict
              [(''fritzbox'', PDict
                 [(''version'', PStr (system_version conn)),
                  (''model'', PStr (modelname conn)),
                  (''guestwifi'', PDict
                     [(''enabled'', dict_get res1 ''NewStatus''),
                      (''ssid'', dict_get res2 ''NewSSID''),
                      (''stats'', PDict [(''error'', PStr msg)])])])]),
            \<lparr>device = d3,
             events = events w @
               [CallAction ''WLANConfiguration3'' ''GetInfo'' [],
                CallAction ''WLANConfiguration3'' ''GetSSID'' [],
                CallAction ''WLANConfiguration3'' ''GetStatistics'' []]\<rparr>)"
    using get_info_caught [OF assms(1) assms(2) _ assms(3) _ assms(4),
        of res1 res2 "[(''error'', PStr msg)]"]
    by simp
  moreover have "error_of (PDict [(''error'', PStr msg)]) = Some (PStr msg)"
    by (simp add: error_of_def)
  moreover have "error_of (PStr (system_version conn)) = None"
    and "error_of (PStr (modelname conn)) = None"
    by (simp_all add: error_of_def)
  ultimately show ?thesis
    using scalar_error_of [OF assms(5)] scalar_error_of [OF assms(6)] by simp
qed

theorem get_info_statistics_failure_witness:
  "get_info (sim_box [''GetStatistics'']) (world0 True) =
     (Inr (PDict
        [(''fritzbox'', PDict
           [(''version'', PStr ''7.29''),
            (''model'', PStr ''FRITZ!Box 7590''),
            (''guestwifi'', PDict
               [(''enabled'', PStr ''Up''),
                (''ssid'', PStr ''guest''),
                (''stats'', PDict [(''error'', PStr ''boom'')])])])]),
      \<lparr>device = True,
       events =
         [CallAction ''WLANConfiguration3'' ''GetInfo'' [],
          CallAction ''WLANConfiguration3'' ''GetSSID'' [],
          CallAction ''WLANConfiguration3'' ''GetStatistics'' []]\<rparr>)
   \<and> error_of (PDict [(''error'', PStr ''boom'')]) = Some (PStr ''boom'')
   \<and> error_of (PStr ''Up'') = None
   \<and> error_of (PStr ''guest'') = None"
proof -
  let ?f = "[''GetStatistics'']"
  let ?info = "[(''NewEnable'', PBool True), (''NewStatus'', PStr ''Up''),
                (''NewSSID'', PStr ''guest'')]"
  let ?ssid = "[(''NewSSID'', PStr ''guest'')]"
  have op: "fritzbox (sim_box ?f) = Some (sim_conn ?f)"
    by (simp add: sim_box_def init_def)
  have r1: "call_action (sim_conn ?f) (device (world0 True)) ''WLANConfiguration3'' ''GetInfo'' []
              = (Inr ?info, True)"
    by (simp add: sim_conn_def sim_router_def world0_def)
  have r2: "call_action (sim_conn ?f) True ''WLANConfiguration3'' ''GetSSID'' [] = (Inr ?ssid, True)"
    by (simp add: sim_conn_def sim_router_def)
  have r3: "call_action (sim_conn ?f) True ''WLANConfiguration3'' ''GetStatistics'' []
              = (Inl (FritzConnectionException ''boom''), True)"
    by (simp add: sim_conn_def sim_router_def)
  have s1: "scalar (dict_get ?info ''NewStatus'')"
    by (simp add: dict_get_def)
  have s2: "scalar (dict_get ?ssid ''NewSSID'')"
    by (simp add: dict_get_def)
  show ?thesis
    using get_info_statistics_failure [OF op r1 r2 r3 s1 s2]
    by (simp add: dict_get_def world0_def sim_conn_def)
qed

section \<open>Closing\<close>

text \<open>
  C10 (after \<^verbatim>\<open>close\<close>). A successful \<open>close\<close> leaves the instance without its
  \<^verbatim>\<open>fritzbox\<close> attribute. On that instance \<open>get_info\<close>, \<open>get_guestwifi_status\<close>,
  \<open>set_guestwifi_status\<close> and a second \<open>close\<close> each raise \<^verbatim>\<open>AttributeError\<close>,
  and the world is returned as it was: no action call has been made.
\<close>

theorem closed_controller_fails:
  assumes "close self = Inr self'"
  shows "fritzbox self' = None
         \<and> get_info self' w = (Inl (AttributeError ''fritzbox''), w)
         \<and> get_guestwifi_status self' w = (Inl (AttributeError ''fritzbox''), w)
         \<and> set_guestwifi_status self' enable w = (Inl (AttributeError ''fritzbox''), w)
         \<and> close self' = Inl (AttributeError ''fritzbox'')"
proof -
  have gone: "fritzbox self' = None"
    using assms by (auto simp: close_def split: option.splits)
  then show ?thesis
    by (simp add: get_info_def get_guestwifi_status_def set_guestwifi_status_def
        priv_get_guestwifi_status_def priv_guestwifi_action_def close_def)
qed

theorem closed_controller_fails_witness:
  "close (sim_box []) = Inr \<lparr>fritzbox = None\<rparr>
   \<and> get_info \<lparr>fritzbox = None\<rparr> (world0 True) = (Inl (AttributeError ''fritzbox''), world0 True)
   \<and> get_guestwifi_status \<lparr>fritzbox = None\<rparr> (world0 True)
       = (Inl (AttributeError ''fritzbox''), world0 True)
   \<and> set_guestwifi_status \<lparr>fritzbox = None\<rparr> (PBool True) (world0 True)
       = (Inl (AttributeError ''fritzbox''), world0 True)
   \<and> close (\<lparr>fritzbox = None\<rparr> :: bool control) = Inl (AttributeError ''fritzbox'')"
proof -
  have cl: "close (sim_box []) = Inr \<lparr>fritzbox = None\<rparr>"
    by (simp add: close_def sim_box_def init_def)
  show ?thesis
    using closed_controller_fails [OF cl, of "world0 True" "PBool True"] cl by simp
qed

section \<open>Start-up\<close>

text \<open>
  C8 as stated does not hold. With assertions compiled out (\<^verbatim>\<open>__debug__\<close> false) the
  three checks are not run: on an environment whose \<^verbatim>\<open>FRITZBOX_PASS\<close> is empty, and on one
  where it is unset, the module opens the connection with that value and goes on to create
  the application.
\<close>

theorem module_init_unchecked_counterexample:
  "sim_environ '''' ''FRITZBOX_PASS'' = Some ''''
   \<and> module_init False (\<lambda>e. e) (\<lambda>a u p. Inr (sim_conn [])) (sim_environ '''')
       = (Inr (), [OpenConnection (PStr ''192.168.178.1'') (PStr ''admin'') (PStr ''''),
                   AppCreated])
   \<and> ((sim_environ ''secret'')(''FRITZBOX_PASS'' := None)) ''FRITZBOX_PASS'' = None
   \<and> module_init False (\<lambda>e. e) (\<lambda>a u p. Inr (sim_conn []))
         ((sim_environ ''secret'')(''FRITZBOX_PASS'' := None))
       = (Inr (), [OpenConnection (PStr ''192.168.178.1'') (PStr ''admin'') PNone,
                   AppCreated])"
  by (simp add: module_init_def assert_raises_def getenv_def sim_environ_def sim_conn_def)

text \<open>
  C8, amended (configuration check at start-up). When assertions are compiled in
  (\<^verbatim>\<open>__debug__\<close> true) and, once \<^verbatim>\<open>load_dotenv\<close> has run, one of \<^verbatim>\<open>FRITZBOX_ADDRESS\<close>,
  \<^verbatim>\<open>FRITZBOX_USER\<close>, \<^verbatim>\<open>FRITZBOX_PASS\<close> is unset or empty, loading the module ends with
  \<^verbatim>\<open>AssertionError\<close> before a connection is opened and before the application is created.
\<close>

theorem module_init_missing_credential:
  assumes "debug"
    and "k \<in> {''FRITZBOX_ADDRESS'', ''FRITZBOX_USER'', ''FRITZBOX_PASS''}"
    and "load_dotenv environ k = None \<or> load_dotenv environ k = Some ''''"
  shows "module_init debug load_dotenv FritzConnection environ = (Inl AssertionError, [])"
proof -
  have "assert_raises debug (getenv (load_dotenv environ) k)"
    using assms(1,3) by (auto simp: assert_raises_def getenv_def)
  then show ?thesis
    using assms(2) by (auto simp: module_init_def Let_def)
qed

theorem module_init_missing_credential_witness:
  "module_init True (\<lambda>e. e) (\<lambda>a u p. Inr (sim_conn [])) (sim_environ '''')
     = (Inl AssertionError, [])
   \<and> module_init True (\<lambda>e. e) (\<lambda>a u p. Inr (sim_conn [])) (sim_environ ''secret'')
       = (Inr (), [OpenConnection (PStr ''192.168.178.1'') (PStr ''admin'') (PStr ''secret''),
                   AppCreated])"
proof -
  have dbg: "True"
    by simp
  have k: "''FRITZBOX_PASS'' \<in> {''FRITZBOX_ADDRESS'', ''FRITZBOX_USER'', ''FRITZBOX_PASS''}"
    by simp
  have e: "(\<lambda>e. e) (sim_environ '''') ''FRITZBOX_PASS'' = None
           \<or> (\<lambda>e. e) (sim_environ '''') ''FRITZBOX_PASS'' = Some ''''"
    by (simp add: sim_environ_def)
  have started: "module_init True (\<lambda>e. e) (\<lambda>a u p. Inr (sim_conn [])) (sim_environ ''secret'')
       = (Inr (), [OpenConnection (PStr ''192.168.178.1'') (PStr ''admin'') (PStr ''secret''),
                   AppCreated])"
    by (simp add: module_init_def assert_raises_def getenv_def sim_environ_def sim_conn_def)
  show ?thesis
    using module_init_missing_credential
        [where debug = True and k = "''FRITZBOX_PASS''" and load_dotenv = "\<lambda>e. e"
           and environ = "sim_environ ''''"
           and FritzConnection = "\<lambda>a u p. Inr (sim_conn [])"]
      dbg k e started
    by simp
qed

end
